theory Spec2Isabelle
  imports Main
begin

section \<open>JavaScript values\<close>

text \<open>
  The values that flow through the token manager and the attendance manager: what
  \<^verbatim>\<open>JSON.parse\<close> delivers, what axios puts into \<^verbatim>\<open>response.data\<close>, and
  \<^verbatim>\<open>undefined\<close>. A string is kept as the list of its bytes in UTF-8; a number is kept as
  its decimal literal (floating point is not modelled, and no property below depends on the
  numeric value of a number). An object is the list of its own members in the order they
  were added (JavaScript lists members named by array indices first; no property below
  depends on the order of members).
\<close>

datatype js_value =
    JUndefined
  | JNull
  | JBool bool
  | JNum string
  | JStr string
  | JArr "js_value list"
  | JObj "(string \<times> js_value) list"

text \<open>Decimal digits of a natural number, as \<^verbatim>\<open>String(n)\<close> prints a non-negative integer.\<close>

fun dec :: "nat \<Rightarrow> string" where
  "dec n = (if n < 10 then [''0123456789'' ! n]
            else dec (n div 10) @ [''0123456789'' ! (n mod 10)])"

declare dec.simps [simp del]

text \<open>
  A number literal denotes zero when its mantissa (the part before an exponent) has no
  digit other than \<^verbatim>\<open>0\<close>.
\<close>

definition num_is_zero :: "string \<Rightarrow> bool" where
  "num_is_zero lit =
     (\<forall>c \<in> set (takeWhile (\<lambda>c. c \<noteq> CHR ''e'' \<and> c \<noteq> CHR ''E'') lit).
        c \<notin> set ''123456789'')"

text \<open>Truthiness, as \<^verbatim>\<open>!x\<close>, \<^verbatim>\<open>x || y\<close> and \<^verbatim>\<open>if (x)\<close> test it.\<close>

fun truthy :: "js_value \<Rightarrow> bool" where
  "truthy JUndefined = False"
| "truthy JNull = False"
| "truthy (JBool b) = b"
| "truthy (JNum lit) = (\<not> num_is_zero lit)"
| "truthy (JStr s) = (s \<noteq> [])"
| "truthy (JArr xs) = True"
| "truthy (JObj ms) = True"

definition js_or :: "js_value \<Rightarrow> js_value \<Rightarrow> js_value" where
  "js_or x y = (if truthy x then x else y)"

text \<open>Joining with a separator, as \<^verbatim>\<open>Array.prototype.join\<close> does.\<close>

fun join :: "string \<Rightarrow> string list \<Rightarrow> string" where
  "join sep [] = []"
| "join sep [x] = x"
| "join sep (x # y # ys) = x @ sep @ join sep (y # ys)"

text \<open>
  Conversion to a string inside a template literal \<^verbatim>\<open>`${x}`\<close>. A plain object prints
  as \<^verbatim>\<open>[object Object]\<close>; an array joins its elements with commas, \<^verbatim>\<open>null\<close> and
  \<^verbatim>\<open>undefined\<close> elements printing as nothing; a number prints as the literal the
  model holds.
\<close>

fun ToString :: "js_value \<Rightarrow> string" where
  "ToString JUndefined = ''undefined''"
| "ToString JNull = ''null''"
| "ToString (JBool b) = (if b then ''true'' else ''false'')"
| "ToString (JNum lit) = lit"
| "ToString (JStr s) = s"
| "ToString (JArr xs) =
     join '','' (map (\<lambda>x. if x = JUndefined \<or> x = JNull then [] else ToString x) xs)"
| "ToString (JObj ms) = ''[object Object]''"

record http_response =
  status :: nat
  statusText :: string
  data :: js_value

text \<open>
  A thrown error object: its \<^verbatim>\<open>message\<close> and, for an axios error raised by a response,
  its \<^verbatim>\<open>response\<close>. \<^verbatim>\<open>new Error(m)\<close> has no response.
\<close>

datatype js_error = JsError (message: string) (response: "http_response option")

definition new_Error :: "string \<Rightarrow> js_error" where
  "new_Error m = JsError m None"

text \<open>
  Reading a property whose name is not a built-in one (such as \<^verbatim>\<open>access_token\<close>):
  on \<^verbatim>\<open>null\<close> and \<^verbatim>\<open>undefined\<close> the read throws a TypeError, on an object it is the
  member or \<^verbatim>\<open>undefined\<close>, on every other value it is \<^verbatim>\<open>undefined\<close>.
\<close>

definition TypeError_read :: "js_value \<Rightarrow> string \<Rightarrow> js_error" where
  "TypeError_read v name =
     new_Error (''Cannot read properties of '' @ ToString v @ '' (reading '' @ [CHR 0x27]
                @ name @ [CHR 0x27] @ '')'')"

fun get_property :: "js_value \<Rightarrow> string \<Rightarrow> js_error + js_value" where
  "get_property JUndefined name = Inl (TypeError_read JUndefined name)"
| "get_property JNull name = Inl (TypeError_read JNull name)"
| "get_property (JObj ms) name =
     Inr (case map_of ms name of None \<Rightarrow> JUndefined | Some v \<Rightarrow> v)"
| "get_property v name = Inr JUndefined"

section \<open>JSON.stringify\<close>

text \<open>
  \<^verbatim>\<open>JSON.stringify(value, null, 2)\<close>: two spaces of indentation per level, a space after
  each colon, members whose value is \<^verbatim>\<open>undefined\<close> left out of an object, an
  \<^verbatim>\<open>undefined\<close> array element printed as \<^verbatim>\<open>null\<close>, and \<^verbatim>\<open>undefined\<close> itself
  giving \<^verbatim>\<open>undefined\<close>. A number is printed as the literal the model holds.
\<close>

definition hex4 :: "nat \<Rightarrow> string" where
  "hex4 n = map (\<lambda>d. ''0123456789abcdef'' ! d)
              [n div 4096 mod 16, n div 256 mod 16, n div 16 mod 16, n mod 16]"

definition quote_char :: "char \<Rightarrow> string" where
  "quote_char c =
     (if c = CHR 0x22 then [CHR 0x5C, CHR 0x22]
      else if c = CHR 0x5C then [CHR 0x5C, CHR 0x5C]
      else if c = CHR 0x08 then [CHR 0x5C, CHR ''b'']
      else if c = CHR 0x0C then [CHR 0x5C, CHR ''f'']
      else if c = CHR 0x0A then [CHR 0x5C, CHR ''n'']
      else if c = CHR 0x0D then [CHR 0x5C, CHR ''r'']
      else if c = CHR 0x09 then [CHR 0x5C, CHR ''t'']
      else if (of_char c :: nat) < 32 then [CHR 0x5C, CHR ''u''] @ hex4 (of_char c)
      else [c])"

definition quote :: "string \<Rightarrow> string" where
  "quote s = [CHR 0x22] @ concat (map quote_char s) @ [CHR 0x22]"

definition gap :: string where
  "gap = ''  ''"

definition newline :: string where
  "newline = [CHR 0x0A]"

fun ser :: "string \<Rightarrow> js_value \<Rightarrow> string" where
  "ser ind JUndefined = ''null''"
| "ser ind JNull = ''null''"
| "ser ind (JBool b) = (if b then ''true'' else ''false'')"
| "ser ind (JNum lit) = lit"
| "ser ind (JStr s) = quote s"
| "ser ind (JArr xs) =
     (if xs = [] then ''[]''
      else ''['' @ newline @ ind @ gap
           @ join ('','' @ newline @ ind @ gap) (map (ser (ind @ gap)) xs)
           @ newline @ ind @ '']'')"
| "ser ind (JObj ms) =
     (let partial = concat (map (\<lambda>(k, v). if v = JUndefined then []
                                           else [quote k @ '': '' @ ser (ind @ gap) v]) ms)
      in if partial = [] then ''{}''
         else ''{'' @ newline @ ind @ gap
              @ join ('','' @ newline @ ind @ gap) partial
              @ newline @ ind @ ''}'')"

definition JSON_stringify :: "js_value \<Rightarrow> js_value" where
  "JSON_stringify v = (if v = JUndefined then JUndefined else JStr (ser [] v))"

section \<open>JSON.parse\<close>

text \<open>
  The JSON grammar (ECMA-404), read in two passes. The first cuts the text into tokens,
  one character at a time; the second builds the value with a stack of the arrays and
  objects still open. Both recurse on the input only, so they are total. Insignificant
  white space is space, tab, line feed and carriage return. An escape \<^verbatim>\<open>\uXXXX\<close> is
  stored as the UTF-8 bytes of that one code unit.
\<close>

datatype token =
    TLBrace | TRBrace | TLBrack | TRBrack | TColon | TComma
  | TStr string | TNum string | TWord string

definition is_ws :: "char \<Rightarrow> bool" where
  "is_ws c = (c = CHR 0x20 \<or> c = CHR 0x09 \<or> c = CHR 0x0A \<or> c = CHR 0x0D)"

definition is_digit :: "char \<Rightarrow> bool" where
  "is_digit c = (c \<in> set ''0123456789'')"

definition punct :: "char \<Rightarrow> token option" where
  "punct c =
     (if c = CHR ''{'' then Some TLBrace else if c = CHR ''}'' then Some TRBrace
      else if c = CHR ''['' then Some TLBrack else if c = CHR '']'' then Some TRBrack
      else if c = CHR '':'' then Some TColon else if c = CHR '','' then Some TComma
      else None)"

text \<open>The character a one-letter escape stands for.\<close>

definition unescape :: "char \<Rightarrow> char option" where
  "unescape c =
     (if c = CHR 0x22 \<or> c = CHR 0x5C \<or> c = CHR ''/'' then Some c
      else if c = CHR ''b'' then Some (CHR 0x08)
      else if c = CHR ''f'' then Some (CHR 0x0C)
      else if c = CHR ''n'' then Some (CHR 0x0A)
      else if c = CHR ''r'' then Some (CHR 0x0D)
      else if c = CHR ''t'' then Some (CHR 0x09)
      else None)"

definition hexval :: "char \<Rightarrow> nat option" where
  "hexval c =
     (let n = (of_char c :: nat)
      in if 48 \<le> n \<and> n \<le> 57 then Some (n - 48)
         else if 65 \<le> n \<and> n \<le> 70 then Some (n - 55)
         else if 97 \<le> n \<and> n \<le> 102 then Some (n - 87)
         else None)"

definition utf8 :: "nat \<Rightarrow> string" where
  "utf8 u =
     (if u < 128 then [char_of u]
      else if u < 2048 then [char_of (192 + u div 64), char_of (128 + u mod 64)]
      else [char_of (224 + u div 4096), char_of (128 + u div 64 mod 64),
            char_of (128 + u mod 64)])"

text \<open>
  A number literal: an optional minus, an integer part without a leading zero, an
  optional fraction, an optional exponent.
\<close>

definition digits1 :: "string \<Rightarrow> string option" where
  "digits1 s = (if takeWhile is_digit s = [] then None else Some (dropWhile is_digit s))"

definition int_part :: "string \<Rightarrow> string option" where
  "int_part s =
     (case s of [] \<Rightarrow> None
      | c # cs \<Rightarrow> if c = CHR ''0'' then Some cs else digits1 s)"

definition frac_part :: "string \<Rightarrow> string option" where
  "frac_part s =
     (case s of [] \<Rightarrow> Some []
      | c # cs \<Rightarrow> if c = CHR ''.'' then digits1 cs else Some s)"

definition exp_part :: "string \<Rightarrow> string option" where
  "exp_part s =
     (case s of [] \<Rightarrow> Some []
      | c # cs \<Rightarrow>
          if c = CHR ''e'' \<or> c = CHR ''E'' then
            (case cs of [] \<Rightarrow> None
             | d # ds \<Rightarrow> if d = CHR ''+'' \<or> d = CHR ''-'' then digits1 ds else digits1 cs)
          else Some s)"

definition is_number :: "string \<Rightarrow> bool" where
  "is_number lit =
     (case int_part (case lit of [] \<Rightarrow> [] | c # cs \<Rightarrow> if c = CHR ''-'' then cs else lit) of
        None \<Rightarrow> False
      | Some r1 \<Rightarrow>
          (case frac_part r1 of
             None \<Rightarrow> False
           | Some r2 \<Rightarrow> exp_part r2 = Some []))"

definition number_char :: "char \<Rightarrow> bool" where
  "number_char c = (is_digit c \<or> c \<in> set ''+-.eE'')"

definition word_char :: "char \<Rightarrow> bool" where
  "word_char c = (c \<in> set ''abcdefghijklmnopqrstuvwxyz'')"

datatype lex_mode =
    Between
  | InString string
  | InEscape string
  | InHex string "nat list"
  | InNumber string
  | InWord string

definition emit :: "token \<Rightarrow> token list option \<Rightarrow> token list option" where
  "emit t r = map_option ((#) t) r"

text \<open>
  A number or a word ends at the first character that cannot continue it; that character
  is then white space or punctuation, or the text is not JSON.
\<close>

fun lex :: "lex_mode \<Rightarrow> string \<Rightarrow> token list option" where
  "lex Between [] = Some []"
| "lex Between (c # cs) =
     (if is_ws c then lex Between cs
      else if c = CHR 0x22 then lex (InString []) cs
      else if is_digit c \<or> c = CHR ''-'' then lex (InNumber [c]) cs
      else if word_char c then lex (InWord [c]) cs
      else (case punct c of None \<Rightarrow> None | Some t \<Rightarrow> emit t (lex Between cs)))"
| "lex (InString acc) [] = None"
| "lex (InString acc) (c # cs) =
     (if c = CHR 0x22 then emit (TStr acc) (lex Between cs)
      else if c = CHR 0x5C then lex (InEscape acc) cs
      else if (of_char c :: nat) < 32 then None
      else lex (InString (acc @ [c])) cs)"
| "lex (InEscape acc) [] = None"
| "lex (InEscape acc) (c # cs) =
     (if c = CHR ''u'' then lex (InHex acc []) cs
      else (case unescape c of None \<Rightarrow> None | Some x \<Rightarrow> lex (InString (acc @ [x])) cs))"
| "lex (InHex acc ds) [] = None"
| "lex (InHex acc ds) (c # cs) =
     (case hexval c of
        None \<Rightarrow> None
      | Some d \<Rightarrow>
          if length ds = 3
          then lex (InString (acc @ utf8 (foldl (\<lambda>a b. 16 * a + b) 0 (ds @ [d])))) cs
          else lex (InHex acc (ds @ [d])) cs)"
| "lex (InNumber acc) [] = (if is_number acc then Some [TNum acc] else None)"
| "lex (InNumber acc) (c # cs) =
     (if number_char c then lex (InNumber (acc @ [c])) cs
      else if \<not> is_number acc then None
      else if is_ws c then emit (TNum acc) (lex Between cs)
      else (case punct c of None \<Rightarrow> None
            | Some t \<Rightarrow> emit (TNum acc) (emit t (lex Between cs))))"
| "lex (InWord acc) [] = Some [TWord acc]"
| "lex (InWord acc) (c # cs) =
     (if word_char c then lex (InWord (acc @ [c])) cs
      else if is_ws c then emit (TWord acc) (lex Between cs)
      else (case punct c of None \<Rightarrow> None
            | Some t \<Rightarrow> emit (TWord acc) (emit t (lex Between cs))))"

text \<open>The value of the literal names \<^verbatim>\<open>true\<close>, \<^verbatim>\<open>false\<close> and \<^verbatim>\<open>null\<close>.\<close>

definition word_value :: "string \<Rightarrow> js_value option" where
  "word_value w =
     (if w = ''true'' then Some (JBool True)
      else if w = ''false'' then Some (JBool False)
      else if w = ''null'' then Some JNull
      else None)"

text \<open>
  Storing a member: a name met again keeps its place and takes the later value.
\<close>

fun set_member :: "string \<Rightarrow> js_value \<Rightarrow> (string \<times> js_value) list \<Rightarrow> (string \<times> js_value) list"
  where
  "set_member k v [] = [(k, v)]"
| "set_member k v ((k', v') # ms) =
     (if k' = k then (k, v) # ms else (k', v') # set_member k v ms)"

text \<open>
  The frames of the stack: an array with the elements read so far, an object with the
  members read so far, and an object whose next member has its name and waits for its
  value.
\<close>

datatype frame =
    FArr "js_value list"
  | FObj "(string \<times> js_value) list"
  | FKey "(string \<times> js_value) list" string

datatype expect =
    EValue | EValueOrClose | EKeyOrClose | EKey | EColon | ECommaOrClose

datatype parse_state = Run expect "frame list" | Done js_value

text \<open>A complete value goes into the innermost open frame, or is the result.\<close>

fun put :: "js_value \<Rightarrow> frame list \<Rightarrow> parse_state option" where
  "put v [] = Some (Done v)"
| "put v (FArr xs # st) = Some (Run ECommaOrClose (FArr (xs @ [v]) # st))"
| "put v (FKey ms k # st) = Some (Run ECommaOrClose (FObj (set_member k v ms) # st))"
| "put v (FObj ms # st) = None"

fun start_value :: "token \<Rightarrow> frame list \<Rightarrow> parse_state option" where
  "start_value (TStr s) st = put (JStr s) st"
| "start_value (TNum n) st = put (JNum n) st"
| "start_value (TWord w) st =
     (case word_value w of None \<Rightarrow> None | Some v \<Rightarrow> put v st)"
| "start_value TLBrack st = Some (Run EValueOrClose (FArr [] # st))"
| "start_value TLBrace st = Some (Run EKeyOrClose (FObj [] # st))"
| "start_value t st = None"

fun step :: "expect \<Rightarrow> frame list \<Rightarrow> token \<Rightarrow> parse_state option" where
  "step EValue st t = start_value t st"
| "step EValueOrClose (FArr xs # st) TRBrack = put (JArr xs) st"
| "step EValueOrClose st t = start_value t st"
| "step EKeyOrClose (FObj ms # st) TRBrace = put (JObj ms) st"
| "step EKeyOrClose (FObj ms # st) (TStr k) = Some (Run EColon (FKey ms k # st))"
| "step EKey (FObj ms # st) (TStr k) = Some (Run EColon (FKey ms k # st))"
| "step EColon st TColon = Some (Run EValue st)"
| "step ECommaOrClose (FArr xs # st) TComma = Some (Run EValue (FArr xs # st))"
| "step ECommaOrClose (FArr xs # st) TRBrack = put (JArr xs) st"
| "step ECommaOrClose (FObj ms # st) TComma = Some (Run EKey (FObj ms # st))"
| "step ECommaOrClose (FObj ms # st) TRBrace = put (JObj ms) st"
| "step e st t = None"

fun parse_tokens :: "parse_state \<Rightarrow> token list \<Rightarrow> js_value option" where
  "parse_tokens (Done v) [] = Some v"
| "parse_tokens (Done v) (t # ts) = None"
| "parse_tokens (Run e st) [] = None"
| "parse_tokens (Run e st) (t # ts) =
     (case step e st t of None \<Rightarrow> None | Some s \<Rightarrow> parse_tokens s ts)"

text \<open>
  \<^verbatim>\<open>JSON.parse(text)\<close>: the value, or a SyntaxError (whose message the program never
  reads).
\<close>

definition JSON_parse :: "string \<Rightarrow> js_error + js_value" where
  "JSON_parse txt =
     (case lex Between txt of
        None \<Rightarrow> Inl (new_Error ''SyntaxError: the text is not valid JSON'')
      | Some ts \<Rightarrow>
          (case parse_tokens (Run EValue []) ts of
             None \<Rightarrow> Inl (new_Error ''SyntaxError: the text is not valid JSON'')
           | Some v \<Rightarrow> Inr v))"


section \<open>The process environment, the file system and the network\<close>

text \<open>
  \<^verbatim>\<open>process.env\<close>: each variable is a string or is not set. The constants of the two modules
  are read from it once, when the module loads.
\<close>

record process_env =
  ZOHO_CLIENT_ID :: "string option"
  ZOHO_CLIENT_SECRET :: "string option"
  ZOHO_REFRESH_TOKEN :: "string option"
  TOKEN_FILE_var :: "string option"
  CHECKIN_TIME_var :: "string option"
  CHECKOUT_TIME_var :: "string option"
  TIMEZONE_var :: "string option"

text \<open>\<^verbatim>\<open>!x\<close> is false, and \<^verbatim>\<open>x || d\<close> is \<^verbatim>\<open>x\<close>, exactly for a non-empty string.\<close>

definition env_truthy :: "string option \<Rightarrow> bool" where
  "env_truthy x = (case x of None \<Rightarrow> False | Some s \<Rightarrow> s \<noteq> [])"

definition env_or :: "string option \<Rightarrow> string \<Rightarrow> string" where
  "env_or x d = (case x of None \<Rightarrow> d | Some s \<Rightarrow> if s \<noteq> [] then s else d)"

text \<open>The text \<^verbatim>\<open>URLSearchParams\<close> stores for a value.\<close>

definition env_text :: "string option \<Rightarrow> string" where
  "env_text x = (case x of None \<Rightarrow> ''undefined'' | Some s \<Rightarrow> s)"

definition CLIENT_ID :: "process_env \<Rightarrow> string option" where
  "CLIENT_ID env = ZOHO_CLIENT_ID env"

definition CLIENT_SECRET :: "process_env \<Rightarrow> string option" where
  "CLIENT_SECRET env = ZOHO_CLIENT_SECRET env"

definition REFRESH_TOKEN :: "process_env \<Rightarrow> string option" where
  "REFRESH_TOKEN env = ZOHO_REFRESH_TOKEN env"

definition TOKEN_FILE :: "process_env \<Rightarrow> string" where
  "TOKEN_FILE env = env_or (TOKEN_FILE_var env) ''access_token.json''"

text \<open>
  An HTTP request as axios is asked to send it: the URL, the entries of the
  \<^verbatim>\<open>URLSearchParams\<close> body and the headers.
\<close>

record http_request =
  url :: string
  body :: "(string \<times> string) list"
  headers :: "(string \<times> string) list"

text \<open>A line of console output: the stream and the arguments given.\<close>

datatype console_line = Log "js_value list" | Err "js_value list"

text \<open>A job handed to the scheduler: its expression, what it runs, its time zone.\<close>

datatype job = AutomatedCheckIn | AutomatedCheckOut

record task =
  expression :: string
  runs :: job
  timezone :: string

text \<open>
  The state the program acts on. \<open>files\<close> maps a path to the text of the file there;
  \<open>read_error\<close> and \<open>write_error\<close> give, for a path that cannot be read or written, the
  message of the error the attempt raises; \<open>requests\<close> is every request handed to
  axios so far, oldest first; \<open>console\<close> is the console output so far; \<open>tasks\<close>
  are the jobs the scheduler has armed; \<open>handlers\<close> are the signals the process has a
  handler for.
\<close>

record world =
  files :: "string \<rightharpoonup> string"
  read_error :: "string \<rightharpoonup> string"
  write_error :: "string \<rightharpoonup> string"
  requests :: "http_request list"
  console :: "console_line list"
  tasks :: "task list"
  handlers :: "string list"

type_synonym 'a result = "(js_error + 'a) \<times> world"

text \<open>
  What the far end does with a request: it answers, or the request fails without an
  answer (no connection, time-out). It may depend on the requests made before.
\<close>

datatype http_outcome = Responds http_response | Fails string

type_synonym network = "http_request list \<Rightarrow> http_request \<Rightarrow> http_outcome"

text \<open>
  \<^verbatim>\<open>fs.promises\<close>: \<^verbatim>\<open>access\<close> with the default mode tests that the path exists;
  \<^verbatim>\<open>readFile\<close> gives the text; \<^verbatim>\<open>writeFile\<close> replaces the whole content, creating
  the file when there is none, and changes nothing when it fails.
\<close>

definition quoted_path :: "string \<Rightarrow> string" where
  "quoted_path p = [CHR 0x27] @ p @ [CHR 0x27]"

definition fs_access :: "string \<Rightarrow> world \<Rightarrow> unit result" where
  "fs_access p w =
     (case files w p of
        None \<Rightarrow> (Inl (new_Error (''ENOENT: no such file or directory, access ''
                                 @ quoted_path p)), w)
      | Some txt \<Rightarrow> (Inr (), w))"

definition fs_readFile :: "string \<Rightarrow> world \<Rightarrow> string result" where
  "fs_readFile p w =
     (case files w p of
        None \<Rightarrow> (Inl (new_Error (''ENOENT: no such file or directory, open ''
                                 @ quoted_path p)), w)
      | Some txt \<Rightarrow>
          (case read_error w p of
             Some m \<Rightarrow> (Inl (new_Error m), w)
           | None \<Rightarrow> (Inr txt, w)))"

definition fs_writeFile :: "string \<Rightarrow> js_value \<Rightarrow> world \<Rightarrow> unit result" where
  "fs_writeFile p d w =
     (case d of
        JStr txt \<Rightarrow>
          (case write_error w p of
             Some m \<Rightarrow> (Inl (new_Error m), w)
           | None \<Rightarrow> (Inr (), w\<lparr>files := (files w)(p \<mapsto> txt)\<rparr>))
      | _ \<Rightarrow> (Inl (new_Error ''ERR_INVALID_ARG_TYPE: the data argument must be of type string''), w))"

text \<open>
  \<^verbatim>\<open>axios.post(url, params, {headers})\<close> with the default \<^verbatim>\<open>validateStatus\<close>: the
  promise resolves with the response when its status is from 200 to 299, and rejects
  otherwise, with an error that carries the response when there was one.
\<close>

definition axios_post ::
  "network \<Rightarrow> string \<Rightarrow> (string \<times> string) list \<Rightarrow> (string \<times> string) list \<Rightarrow> world
     \<Rightarrow> http_response result" where
  "axios_post net u params hs w =
     (let req = \<lparr>url = u, body = params, headers = hs\<rparr>;
          w' = w\<lparr>requests := requests w @ [req]\<rparr>
      in case net (requests w) req of
           Fails m \<Rightarrow> (Inl (JsError m None), w')
         | Responds r \<Rightarrow>
             if 200 \<le> status r \<and> status r < 300 then (Inr r, w')
             else (Inl (JsError (''Request failed with status code '' @ dec (status r))
                                (Some r)), w'))"

section \<open>zoho\_token\_manager.js\<close>

definition token_url :: string where
  "token_url = ''https://accounts.zoho.eu/oauth/v2/token''"

definition missing_variables :: js_error where
  "missing_variables =
     new_Error ''Missing required environment variables: ZOHO_CLIENT_ID, ZOHO_CLIENT_SECRET, ZOHO_REFRESH_TOKEN''"

text \<open>The \<^verbatim>\<open>catch\<close> block of \<^verbatim>\<open>refreshAccessToken\<close>: the error it throws in turn.\<close>

definition refresh_catch :: "js_error \<Rightarrow> js_error" where
  "refresh_catch error =
     (case response error of
        Some r \<Rightarrow> new_Error (''Token refresh failed: ''
                             @ ToString (js_or (data r) (JStr (statusText r))))
      | None \<Rightarrow> new_Error (''Token refresh failed: '' @ message error))"

definition refreshAccessToken :: "process_env \<Rightarrow> network \<Rightarrow> world \<Rightarrow> js_value result" where
  "refreshAccessToken env net w =
     (if \<not> env_truthy (CLIENT_ID env) \<or> \<not> env_truthy (CLIENT_SECRET env)
         \<or> \<not> env_truthy (REFRESH_TOKEN env)
      then (Inl missing_variables, w)
      else
        let params = [(''refresh_token'', env_text (REFRESH_TOKEN env)),
                      (''client_id'', env_text (CLIENT_ID env)),
                      (''client_secret'', env_text (CLIENT_SECRET env)),
                      (''grant_type'', ''refresh_token'')]
        in case axios_post net token_url params
                  [(''Content-Type'', ''application/x-www-form-urlencoded'')] w of
             (Inl error, w1) \<Rightarrow> (Inl (refresh_catch error), w1)
           | (Inr res, w1) \<Rightarrow>
               if status res = 200 then
                 (case get_property (data res) ''access_token'' of
                    Inl error \<Rightarrow> (Inl (refresh_catch error), w1)
                  | Inr accessToken \<Rightarrow>
                      (case fs_writeFile (TOKEN_FILE env)
                              (JSON_stringify (JObj [(''access_token'', accessToken)])) w1 of
                         (Inl error, w2) \<Rightarrow> (Inl (refresh_catch error), w2)
                       | (Inr u, w2) \<Rightarrow> (Inr accessToken, w2)))
               else (Inr JUndefined, w1))"

definition getAccessToken :: "process_env \<Rightarrow> network \<Rightarrow> world \<Rightarrow> js_value result" where
  "getAccessToken env net w =
     (case fs_access (TOKEN_FILE env) w of
        (Inl error, w1) \<Rightarrow> refreshAccessToken env net w1
      | (Inr u, w1) \<Rightarrow>
          (case fs_readFile (TOKEN_FILE env) w1 of
             (Inl error, w2) \<Rightarrow> refreshAccessToken env net w2
           | (Inr tokenFileContent, w2) \<Rightarrow>
               (case JSON_parse tokenFileContent of
                  Inl error \<Rightarrow> refreshAccessToken env net w2
                | Inr tokenData \<Rightarrow>
                    (case get_property tokenData ''access_token'' of
                       Inl error \<Rightarrow> refreshAccessToken env net w2
                     | Inr v \<Rightarrow> (Inr v, w2)))))"

section \<open>attendance\_manager.js\<close>

definition TIMEZONE :: "process_env \<Rightarrow> string" where
  "TIMEZONE env = env_or (TIMEZONE_var env) ''Europe/Berlin''"

definition CHECKIN_TIME :: "process_env \<Rightarrow> string" where
  "CHECKIN_TIME env = env_or (CHECKIN_TIME_var env) ''0 9 * * 1-5''"

definition CHECKOUT_TIME :: "process_env \<Rightarrow> string" where
  "CHECKOUT_TIME env = env_or (CHECKOUT_TIME_var env) ''0 18 * * 1-5''"

text \<open>
  What a \<^verbatim>\<open>Date\<close> object answers to its getters, in local time; \<open>getMonth\<close> counts
  from 0. The clock of a call to \<^verbatim>\<open>checkInOut\<close> gives the \<^verbatim>\<open>new Date()\<close> the time sent
  is built from, and the \<^verbatim>\<open>new Date().toLocaleString()\<close> that stamps its console lines.
\<close>

record date =
  getDate :: nat
  getMonth :: nat
  getFullYear :: nat
  getHours :: nat
  getMinutes :: nat
  getSeconds :: nat

record clock =
  now :: date
  toLocaleString :: string

text \<open>\<^verbatim>\<open>s.padStart(2, '0')\<close>.\<close>

definition padStart2 :: "string \<Rightarrow> string" where
  "padStart2 s = replicate (2 - length s) (CHR ''0'') @ s"

definition attendance_url :: string where
  "attendance_url = ''https://people.zoho.eu/people/api/attendance''"

definition action :: "bool \<Rightarrow> string" where
  "action isCheckIn = (if isCheckIn then ''CHECK IN'' else ''CHECK OUT'')"

text \<open>The \<^verbatim>\<open>catch\<close> block of \<^verbatim>\<open>checkInOut\<close>: one line on the error stream, and the error again.\<close>

definition checkInOut_catch :: "clock \<Rightarrow> bool \<Rightarrow> js_error \<Rightarrow> world \<Rightarrow> js_value result" where
  "checkInOut_catch clk isCheckIn error w =
     (Inl error,
      w\<lparr>console := console w @
          [Err [JStr (''['' @ toLocaleString clk @ ''] '' @ action isCheckIn @ '' FAILED:''),
                (case response error of
                   None \<Rightarrow> JStr (message error)
                 | Some r \<Rightarrow> js_or (data r) (JStr (message error)))]]\<rparr>)"

definition currentTime :: "date \<Rightarrow> string" where
  "currentTime d =
     padStart2 (dec (getDate d)) @ ''/'' @ padStart2 (dec (getMonth d + 1)) @ ''/''
     @ dec (getFullYear d) @ '' '' @ padStart2 (dec (getHours d)) @ '':''
     @ padStart2 (dec (getMinutes d)) @ '':'' @ padStart2 (dec (getSeconds d))"

definition checkInOut ::
  "process_env \<Rightarrow> network \<Rightarrow> clock \<Rightarrow> bool \<Rightarrow> world \<Rightarrow> js_value result" where
  "checkInOut env net clk isCheckIn w =
     (case getAccessToken env net w of
        (Inl error, w1) \<Rightarrow> checkInOut_catch clk isCheckIn error w1
      | (Inr accessToken, w1) \<Rightarrow>
         (let hs = [(''Authorization'', ''Zoho-oauthtoken '' @ ToString accessToken),
                    (''Content-Type'', ''application/x-www-form-urlencoded'')];
              payload = [(''dateFormat'', ''dd/MM/yyyy HH:mm:ss'')]
                        @ (if isCheckIn then [(''checkIn'', currentTime (now clk))]
                           else [(''checkOut'', currentTime (now clk))])
          in case axios_post net attendance_url payload hs w1 of
               (Inl error, w2) \<Rightarrow> checkInOut_catch clk isCheckIn error w2
             | (Inr res, w2) \<Rightarrow>
                 (Inr (data res),
                  w2\<lparr>console := console w2 @
                      [Log [JStr (''['' @ toLocaleString clk @ ''] '' @ action isCheckIn
                                  @ '' - Status: '' @ dec (status res))],
                       Log [JStr (''Time sent: '' @ currentTime (now clk))],
                       Log [JStr (''Response: ''
                                  @ ToString (JSON_stringify (data res)))]]\<rparr>)))"

definition checkIn :: "process_env \<Rightarrow> network \<Rightarrow> clock \<Rightarrow> world \<Rightarrow> js_value result" where
  "checkIn env net clk w = checkInOut env net clk True w"

definition checkOut :: "process_env \<Rightarrow> network \<Rightarrow> clock \<Rightarrow> world \<Rightarrow> js_value result" where
  "checkOut env net clk w = checkInOut env net clk False w"

subsection \<open>The scheduler\<close>

text \<open>Splitting at a separator, as \<^verbatim>\<open>String.prototype.split\<close> does.\<close>

fun split_on :: "char \<Rightarrow> string \<Rightarrow> string list" where
  "split_on sep [] = [[]]"
| "split_on sep (c # cs) =
     (if c = sep then [] # split_on sep cs
      else (case split_on sep cs of [] \<Rightarrow> [[c]] | x # xs \<Rightarrow> (c # x) # xs))"

definition number :: "string \<Rightarrow> nat option" where
  "number s =
     (if s \<noteq> [] \<and> list_all is_digit s
      then Some (foldl (\<lambda>a c. 10 * a + (of_char c - 48)) 0 s)
      else None)"

definition in_range :: "nat \<Rightarrow> nat \<Rightarrow> string \<Rightarrow> bool" where
  "in_range lo hi s = (case number s of None \<Rightarrow> False | Some n \<Rightarrow> lo \<le> n \<and> n \<le> hi)"

definition valid_range :: "nat \<Rightarrow> nat \<Rightarrow> string \<Rightarrow> bool" where
  "valid_range lo hi r =
     (r = ''*'' \<or>
      (case split_on (CHR ''-'') r of
         [a] \<Rightarrow> in_range lo hi a
       | [a, b] \<Rightarrow> in_range lo hi a \<and> in_range lo hi b
       | _ \<Rightarrow> False))"

definition valid_item :: "nat \<Rightarrow> nat \<Rightarrow> string \<Rightarrow> bool" where
  "valid_item lo hi item =
     (case split_on (CHR ''/'') item of
        [r] \<Rightarrow> valid_range lo hi r
      | [r, s] \<Rightarrow> valid_range lo hi r \<and> (case number s of None \<Rightarrow> False | Some n \<Rightarrow> 0 < n)
      | _ \<Rightarrow> False)"

definition valid_field :: "nat \<Rightarrow> nat \<Rightarrow> string \<Rightarrow> bool" where
  "valid_field lo hi f = list_all (valid_item lo hi) (split_on (CHR '','') f)"

text \<open>
  Modelled from the spec: \<^verbatim>\<open>cron.validate\<close> of the node-cron package, which is not among
  the sources. The spec gives each expression as ``a standard 5-field cron-like grammar
  (minute, hour, day-of-month, month, day-of-week)'': five fields between blanks, each a
  comma-separated list of items, an item being \<^verbatim>\<open>*\<close>, a number or a range of two
  numbers, with an optional step after a slash, and every number within the bounds of
  its field. Names of months and of days are not in the model.
\<close>

definition cron_validate :: "string \<Rightarrow> bool" where
  "cron_validate e =
     (case filter (\<lambda>f. f \<noteq> []) (split_on (CHR '' '') e) of
        [minute, hour, day, month, weekday] \<Rightarrow>
          valid_field 0 59 minute \<and> valid_field 0 23 hour \<and> valid_field 1 31 day
          \<and> valid_field 1 12 month \<and> valid_field 0 7 weekday
      | _ \<Rightarrow> False)"

text \<open>
  Modelled from the spec: \<^verbatim>\<open>cron.schedule\<close> of the node-cron package, which is not among
  the sources. By the spec ``expressions are validated for syntactic correctness before
  being armed; an invalid expression must be rejected before the scheduler starts'': the
  call checks the expression, throws on one that is not valid, and otherwise arms the
  job.
\<close>

definition cron_schedule :: "string \<Rightarrow> job \<Rightarrow> string \<Rightarrow> world \<Rightarrow> unit result" where
  "cron_schedule e j tz w =
     (if cron_validate e
      then (Inr (), w\<lparr>tasks := tasks w @ [\<lparr>expression = e, runs = j, timezone = tz\<rparr>]\<rparr>)
      else (Inl (new_Error (e @ '' is a invalid expression'')), w))"

text \<open>
  What an armed job does when it fires: a console line, the action, and a console line
  for an error, which goes no further. (The pictographs that open the console lines of
  the source are left out.)
\<close>

definition fire :: "job \<Rightarrow> process_env \<Rightarrow> network \<Rightarrow> clock \<Rightarrow> world \<Rightarrow> world" where
  "fire j env net clk w =
     (case j of
        AutomatedCheckIn \<Rightarrow>
          (case checkIn env net clk (w\<lparr>console := console w
                   @ [Log [JStr ''Automated check-in triggered'']]\<rparr>) of
             (Inl error, w1) \<Rightarrow>
               w1\<lparr>console := console w1
                    @ [Err [JStr ''Automated check-in failed:'', JStr (message error)]]\<rparr>
           | (Inr v, w1) \<Rightarrow> w1)
      | AutomatedCheckOut \<Rightarrow>
          (case checkOut env net clk (w\<lparr>console := console w
                   @ [Log [JStr ''Automated check-out triggered'']]\<rparr>) of
             (Inl error, w1) \<Rightarrow>
               w1\<lparr>console := console w1
                    @ [Err [JStr ''Automated check-out failed:'', JStr (message error)]]\<rparr>
           | (Inr v, w1) \<Rightarrow> w1))"

definition setupCronJobs :: "process_env \<Rightarrow> world \<Rightarrow> unit result" where
  "setupCronJobs env w =
     (case cron_schedule (CHECKIN_TIME env) AutomatedCheckIn (TIMEZONE env) w of
        (Inl error, w1) \<Rightarrow> (Inl error, w1)
      | (Inr u, w1) \<Rightarrow>
          (case cron_schedule (CHECKOUT_TIME env) AutomatedCheckOut (TIMEZONE env) w1 of
             (Inl error, w2) \<Rightarrow> (Inl error, w2)
           | (Inr u, w2) \<Rightarrow>
               (Inr (),
                w2\<lparr>console := console w2 @
                    [Log [JStr ''Cron jobs scheduled:''],
                     Log [JStr (''   - Check-in: '' @ CHECKIN_TIME env)],
                     Log [JStr (''   - Check-out: '' @ CHECKOUT_TIME env)],
                     Log [JStr (''   - Timezone: '' @ TIMEZONE env)]]\<rparr>)))"

definition startScheduler :: "process_env \<Rightarrow> world \<Rightarrow> unit result" where
  "startScheduler env w =
     (case setupCronJobs env w of
        (Inl error, w1) \<Rightarrow> (Inl error, w1)
      | (Inr u, w1) \<Rightarrow>
          (Inr (),
           w1\<lparr>console := console w1 @ [Log [JStr ''Attendance scheduler started'']],
               handlers := handlers w1 @ [''SIGINT'', ''SIGTERM'']\<rparr>))"


section \<open>The requests the program sends\<close>

text \<open>
  The token request: a POST to the token endpoint whose form body holds the refresh
  secret, the client identifier, the client secret and the grant type.
\<close>

definition token_request :: "process_env \<Rightarrow> http_request" where
  "token_request env =
     \<lparr>url = token_url,
      body = [(''refresh_token'', env_text (REFRESH_TOKEN env)),
              (''client_id'', env_text (CLIENT_ID env)),
              (''client_secret'', env_text (CLIENT_SECRET env)),
              (''grant_type'', ''refresh_token'')],
      headers = [(''Content-Type'', ''application/x-www-form-urlencoded'')]\<rparr>"

definition secrets_present :: "process_env \<Rightarrow> bool" where
  "secrets_present env =
     (env_truthy (CLIENT_ID env) \<and> env_truthy (CLIENT_SECRET env)
      \<and> env_truthy (REFRESH_TOKEN env))"

text \<open>The text of the record a refresh stores for the access value \<open>v\<close>.\<close>

definition stored_record :: "js_value \<Rightarrow> string" where
  "stored_record v = ser [] (JObj [(''access_token'', v)])"


text \<open>
  The time format \<^verbatim>\<open>dd/MM/yyyy HH:mm:ss\<close>, written out from its pattern: two digits for
  the day, the month (counted from 1), the hour, the minute and the second, four for the
  year.
\<close>

definition digit :: "nat \<Rightarrow> char" where
  "digit n = ''0123456789'' ! (n mod 10)"

definition two_digits :: "nat \<Rightarrow> string" where
  "two_digits n = [digit (n div 10), digit n]"

definition four_digits :: "nat \<Rightarrow> string" where
  "four_digits n = [digit (n div 1000), digit (n div 100), digit (n div 10), digit n]"

definition dd_MM_yyyy_HH_mm_ss :: "date \<Rightarrow> string" where
  "dd_MM_yyyy_HH_mm_ss d =
     two_digits (getDate d) @ ''/'' @ two_digits (getMonth d + 1) @ ''/''
     @ four_digits (getFullYear d) @ '' '' @ two_digits (getHours d) @ '':''
     @ two_digits (getMinutes d) @ '':'' @ two_digits (getSeconds d)"

text \<open>The ranges of the getters of a date in the years 1000 to 9999.\<close>

definition valid_date :: "date \<Rightarrow> bool" where
  "valid_date d =
     (1 \<le> getDate d \<and> getDate d \<le> 31 \<and> getMonth d \<le> 11
      \<and> 1000 \<le> getFullYear d \<and> getFullYear d \<le> 9999
      \<and> getHours d \<le> 23 \<and> getMinutes d \<le> 59 \<and> getSeconds d \<le> 59)"

text \<open>
  The check-in request: a POST to the attendance endpoint whose form body holds the date
  format and the check-in time, with the access value in the \<^verbatim>\<open>Authorization\<close> header.
\<close>

definition check_in_request :: "string \<Rightarrow> date \<Rightarrow> http_request" where
  "check_in_request tok d =
     \<lparr>url = attendance_url,
      body = [(''dateFormat'', ''dd/MM/yyyy HH:mm:ss''),
              (''checkIn'', dd_MM_yyyy_HH_mm_ss d)],
      headers = [(''Authorization'', ''Zoho-oauthtoken '' @ tok),
                 (''Content-Type'', ''application/x-www-form-urlencoded'')]\<rparr>"


section \<open>Example inputs\<close>

definition world0 :: world where
  "world0 = \<lparr>files = Map.empty, read_error = Map.empty, write_error = Map.empty,
             requests = [], console = [], tasks = [], handlers = []\<rparr>"

definition env_ok :: process_env where
  "env_ok = \<lparr>ZOHO_CLIENT_ID = Some ''1000.ABC'', ZOHO_CLIENT_SECRET = Some ''s3cret'',
             ZOHO_REFRESH_TOKEN = Some ''1000.refresh'', TOKEN_FILE_var = None,
             CHECKIN_TIME_var = None, CHECKOUT_TIME_var = None, TIMEZONE_var = None\<rparr>"

definition env_no_secret :: process_env where
  "env_no_secret = env_ok\<lparr>ZOHO_CLIENT_SECRET := None\<rparr>"

text \<open>A token endpoint that issues \<^verbatim>\<open>new\<close> with a lifetime of an hour.\<close>

definition issued :: http_response where
  "issued = \<lparr>status = 200, statusText = ''OK'',
             data = JObj [(''access_token'', JStr ''new''), (''expires_in'', JNum ''3600'')]\<rparr>"

definition net_issue :: network where
  "net_issue hist req = Responds issued"

text \<open>
  A token file as an earlier refresh left it, holding the access value \<^verbatim>\<open>old\<close>; a file
  that also records an expiry long past; a file that is not JSON; the files \<^verbatim>\<open>{}\<close> and
  \<^verbatim>\<open>null\<close>.
\<close>

definition cached_text :: string where
  "cached_text = ''{\<newline>  \"access_token\": \"old\"\<newline>}''"

definition world_cached :: world where
  "world_cached = world0\<lparr>files := [''access_token.json'' \<mapsto> cached_text]\<rparr>"

definition world_expired :: world where
  "world_expired =
     world0\<lparr>files := [''access_token.json'' \<mapsto> ''{\"access_token\": \"old\", \"expires_at\": 0}'']\<rparr>"

definition world_corrupt :: world where
  "world_corrupt = world0\<lparr>files := [''access_token.json'' \<mapsto> ''not json'']\<rparr>"

definition world_empty_object :: world where
  "world_empty_object = world0\<lparr>files := [''access_token.json'' \<mapsto> ''{}'']\<rparr>"

definition world_null :: world where
  "world_null = world0\<lparr>files := [''access_token.json'' \<mapsto> ''null'']\<rparr>"


text \<open>
  Token endpoints: one that answers 201 Created, one that rejects the grant, one that
  cannot be reached, and one that issues \<^verbatim>\<open>first\<close> and from then on \<^verbatim>\<open>second\<close>.
\<close>

definition created :: http_response where
  "created = \<lparr>status = 201, statusText = ''Created'',
              data = JObj [(''access_token'', JStr ''new'')]\<rparr>"

definition net_created :: network where
  "net_created hist req = Responds created"

definition invalid_grant :: http_response where
  "invalid_grant = \<lparr>status = 400, statusText = ''Bad Request'',
                    data = JObj [(''error'', JStr ''invalid_grant'')]\<rparr>"

definition net_invalid_grant :: network where
  "net_invalid_grant hist req = Responds invalid_grant"

definition net_down :: network where
  "net_down hist req = Fails ''connect ECONNREFUSED''"

definition first_issued :: http_response where
  "first_issued = \<lparr>status = 200, statusText = ''OK'',
                   data = JObj [(''access_token'', JStr ''first'')]\<rparr>"

definition second_issued :: http_response where
  "second_issued = \<lparr>status = 200, statusText = ''OK'',
                    data = JObj [(''access_token'', JStr ''second'')]\<rparr>"

definition net_two :: network where
  "net_two hist req = Responds (if hist = [] then first_issued else second_issued)"

text \<open>
  A clock at 09:00:05 on 2 November 2026; an attendance endpoint that accepts; an
  environment whose check-in expression is not a schedule.
\<close>

definition clock0 :: clock where
  "clock0 = \<lparr>now = \<lparr>getDate = 2, getMonth = 10, getFullYear = 2026,
                      getHours = 9, getMinutes = 0, getSeconds = 5\<rparr>,
              toLocaleString = ''11/2/2026, 9:00:05 AM''\<rparr>"

definition accepted :: http_response where
  "accepted = \<lparr>status = 200, statusText = ''OK'',
               data = JObj [(''status'', JStr ''success'')]\<rparr>"

definition net_attend :: network where
  "net_attend hist req = Responds (if url req = attendance_url then accepted else issued)"

definition env_bad_cron :: process_env where
  "env_bad_cron = env_ok\<lparr>CHECKIN_TIME_var := Some ''99 99 * * *''\<rparr>"

section \<open>Properties\<close>

subsection \<open>What the two functions of the token manager compute\<close>

lemma JSON_stringify_object: "JSON_stringify (JObj ms) = JStr (ser [] (JObj ms))"
  by (simp add: JSON_stringify_def)

text \<open>
  With the three secrets set, \<^verbatim>\<open>refreshAccessToken\<close> sends the token request and then
  goes one of six ways.
\<close>

lemma refresh_sends:
  assumes "secrets_present env"
  shows "refreshAccessToken env net w =
     (case net (requests w) (token_request env) of
        Fails m \<Rightarrow> (Inl (new_Error (''Token refresh failed: '' @ m)),
                    w\<lparr>requests := requests w @ [token_request env]\<rparr>)
      | Responds r \<Rightarrow>
          if 200 \<le> status r \<and> status r < 300 then
            (if status r = 200 then
               (case get_property (data r) ''access_token'' of
                  Inl e \<Rightarrow> (Inl (refresh_catch e),
                            w\<lparr>requests := requests w @ [token_request env]\<rparr>)
                | Inr v \<Rightarrow>
                   (case write_error w (TOKEN_FILE env) of
                      Some m \<Rightarrow> (Inl (new_Error (''Token refresh failed: '' @ m)),
                                 w\<lparr>requests := requests w @ [token_request env]\<rparr>)
                    | None \<Rightarrow>
                        (Inr v, w\<lparr>requests := requests w @ [token_request env],
                                   files := (files w)(TOKEN_FILE env \<mapsto> stored_record v)\<rparr>)))
             else (Inr JUndefined, w\<lparr>requests := requests w @ [token_request env]\<rparr>))
          else (Inl (new_Error (''Token refresh failed: ''
                       @ ToString (js_or (data r) (JStr (statusText r))))),
                w\<lparr>requests := requests w @ [token_request env]\<rparr>))"
  using assms
  by (simp add: refreshAccessToken_def secrets_present_def axios_post_def token_request_def
      Let_def JSON_stringify_object fs_writeFile_def refresh_catch_def new_Error_def
      stored_record_def
      split: http_outcome.split sum.split option.split)

lemma refresh_without_secrets:
  "\<not> secrets_present env \<Longrightarrow> refreshAccessToken env net w = (Inl missing_variables, w)"
  by (auto simp: refreshAccessToken_def secrets_present_def)

lemma refresh_catch_shape: "\<exists>m. refresh_catch e = new_Error (''Token refresh failed: '' @ m)"
  by (cases e) (auto simp: refresh_catch_def split: option.split)

lemma refresh_error_shape:
  assumes "fst (refreshAccessToken env net w) = Inl e"
  shows "e = missing_variables \<or> (\<exists>m. e = new_Error (''Token refresh failed: '' @ m))"
proof (cases "secrets_present env")
  case False
  with assms show ?thesis by (simp add: refresh_without_secrets)
next
  case True
  from assms show ?thesis
    unfolding refresh_sends [OF True]
    using refresh_catch_shape
    by (auto split: http_outcome.splits if_splits sum.splits option.splits)
qed

text \<open>\<^verbatim>\<open>getAccessToken\<close> by the state of the token file.\<close>

lemma getAccessToken_cases:
  "getAccessToken env net w =
     (case files w (TOKEN_FILE env) of
        None \<Rightarrow> refreshAccessToken env net w
      | Some txt \<Rightarrow>
          (case read_error w (TOKEN_FILE env) of
             Some m \<Rightarrow> refreshAccessToken env net w
           | None \<Rightarrow>
               (case JSON_parse txt of
                  Inl e \<Rightarrow> refreshAccessToken env net w
                | Inr v \<Rightarrow>
                    (case get_property v ''access_token'' of
                       Inl e \<Rightarrow> refreshAccessToken env net w
                     | Inr x \<Rightarrow> (Inr x, w)))))"
  by (simp add: getAccessToken_def fs_access_def fs_readFile_def
      split: option.split sum.split)


subsection \<open>What JSON.parse never delivers\<close>

lemma put_defined: "put v st = Some (Done x) \<Longrightarrow> x = v"
  by (cases "(v, st)" rule: put.cases) auto

lemma start_value_defined: "start_value t st = Some (Done x) \<Longrightarrow> x \<noteq> JUndefined"
  by (cases "(t, st)" rule: start_value.cases)
     (auto simp: word_value_def dest!: put_defined split: option.splits if_splits)

lemma step_defined: "step e st t = Some (Done x) \<Longrightarrow> x \<noteq> JUndefined"
  by (cases "(e, st, t)" rule: step.cases)
     (auto dest: put_defined start_value_defined simp del: start_value.simps)

lemma parse_tokens_defined:
  "parse_tokens s ts = Some v \<Longrightarrow> (\<And>x. s = Done x \<Longrightarrow> x \<noteq> JUndefined) \<Longrightarrow> v \<noteq> JUndefined"
proof (induction s ts rule: parse_tokens.induct)
  case (4 e st t ts)
  then show ?case
    by (auto split: option.splits dest: step_defined)
qed auto

lemma JSON_parse_defined: "JSON_parse txt = Inr v \<Longrightarrow> v \<noteq> JUndefined"
  by (auto simp: JSON_parse_def split: option.splits dest: parse_tokens_defined)

subsection \<open>The time sent has the format of the pattern\<close>

lemma dec_one_digit: "n < 10 \<Longrightarrow> dec n = [digit n]"
  by (subst dec.simps) (simp add: digit_def)

lemma dec_two_digits: "10 \<le> n \<Longrightarrow> n < 100 \<Longrightarrow> dec n = [digit (n div 10), digit n]"
  by (subst dec.simps) (simp add: dec_one_digit digit_def)

lemma dec_three_digits:
  "100 \<le> n \<Longrightarrow> n < 1000 \<Longrightarrow> dec n = [digit (n div 100), digit (n div 10), digit n]"
  by (subst dec.simps) (simp add: dec_two_digits digit_def div_mult2_eq [symmetric])

lemma dec_four_digits:
  "1000 \<le> n \<Longrightarrow> n < 10000 \<Longrightarrow> dec n = four_digits n"
  by (subst dec.simps)
     (simp add: dec_three_digits digit_def four_digits_def div_mult2_eq [symmetric])

lemma padStart2_dec: "n < 100 \<Longrightarrow> padStart2 (dec n) = two_digits n"
  by (cases "n < 10")
     (simp_all add: dec_one_digit dec_two_digits padStart2_def two_digits_def digit_def)

lemma currentTime_format: "valid_date d \<Longrightarrow> currentTime d = dd_MM_yyyy_HH_mm_ss d"
  by (simp add: valid_date_def currentTime_def dd_MM_yyyy_HH_mm_ss_def padStart2_dec
      dec_four_digits)

subsection \<open>What setting up the jobs computes\<close>

lemma setupCronJobs_cases:
  "setupCronJobs env w =
     (if \<not> cron_validate (CHECKIN_TIME env)
      then (Inl (new_Error (CHECKIN_TIME env @ '' is a invalid expression'')), w)
      else if \<not> cron_validate (CHECKOUT_TIME env)
      then (Inl (new_Error (CHECKOUT_TIME env @ '' is a invalid expression'')),
            w\<lparr>tasks := tasks w @ [\<lparr>expression = CHECKIN_TIME env, runs = AutomatedCheckIn,
                                    timezone = TIMEZONE env\<rparr>]\<rparr>)
      else (Inr (),
            w\<lparr>tasks := tasks w @ [\<lparr>expression = CHECKIN_TIME env, runs = AutomatedCheckIn,
                                    timezone = TIMEZONE env\<rparr>,
                                   \<lparr>expression = CHECKOUT_TIME env, runs = AutomatedCheckOut,
                                    timezone = TIMEZONE env\<rparr>],
              console := console w @
                    [Log [JStr ''Cron jobs scheduled:''],
                     Log [JStr (''   - Check-in: '' @ CHECKIN_TIME env)],
                     Log [JStr (''   - Check-out: '' @ CHECKOUT_TIME env)],
                     Log [JStr (''   - Timezone: '' @ TIMEZONE env)]]\<rparr>))"
  by (simp add: setupCronJobs_def cron_schedule_def)

subsection \<open>Facts about the example inputs\<close>

lemma secrets_env_ok: "secrets_present env_ok"
  by (simp add: secrets_present_def env_ok_def CLIENT_ID_def CLIENT_SECRET_def
      REFRESH_TOKEN_def env_truthy_def)

lemma token_file_env_ok: "TOKEN_FILE env_ok = ''access_token.json''"
  by (simp add: TOKEN_FILE_def env_ok_def env_or_def)

subsection \<open>The claims\<close>

text \<open>
  C1. A token file that holds an object with an \<^verbatim>\<open>access_token\<close> member is answered from
  the file: the member is returned and the state is as before, so no refresh request is
  sent. Neither the time of the call nor anything else the file records enters, so a
  value whose lifetime is over is returned like any other, where the specification asks
  for one refresh and the newly issued value.
\<close>

theorem cached_value_returned_without_refresh:
  assumes "files w (TOKEN_FILE env) = Some txt"
    and "read_error w (TOKEN_FILE env) = None"
    and "JSON_parse txt = Inr (JObj ms)"
    and "map_of ms ''access_token'' = Some v"
  shows "getAccessToken env net w = (Inr v, w)"
  using assms by (simp add: getAccessToken_cases)

theorem cached_value_returned_without_refresh_witness:
  "files world_expired (TOKEN_FILE env_ok)
      = Some ''{\"access_token\": \"old\", \"expires_at\": 0}''
   \<and> JSON_parse ''{\"access_token\": \"old\", \"expires_at\": 0}''
      = Inr (JObj [(''access_token'', JStr ''old''), (''expires_at'', JNum ''0'')])
   \<and> net_issue (requests world_expired) (token_request env_ok) = Responds issued
   \<and> getAccessToken env_ok net_issue world_expired = (Inr (JStr ''old''), world_expired)
   \<and> requests world_expired = []"
proof -
  have f: "files world_expired (TOKEN_FILE env_ok)
      = Some ''{\"access_token\": \"old\", \"expires_at\": 0}''"
    by (simp add: world_expired_def token_file_env_ok)
  have r: "read_error world_expired (TOKEN_FILE env_ok) = None"
    by (simp add: world_expired_def world0_def)
  have p: "JSON_parse ''{\"access_token\": \"old\", \"expires_at\": 0}''
      = Inr (JObj [(''access_token'', JStr ''old''), (''expires_at'', JNum ''0'')])"
    by code_simp
  have n: "net_issue (requests world_expired) (token_request env_ok) = Responds issued"
    by (simp add: net_issue_def)
  have q: "requests world_expired = []"
    by (simp add: world_expired_def world0_def)
  show ?thesis
    using cached_value_returned_without_refresh [OF f r p, of "JStr ''old''" net_issue] f p n q
    by simp
qed

text \<open>
  C2. After a refresh that succeeds (the secrets are set, the token endpoint answers 200
  with a body whose \<^verbatim>\<open>access_token\<close> is \<open>v\<close>, the file can be written), the token file
  holds the text of the object \<^verbatim>\<open>{access_token: v}\<close> and nothing else: one member, the
  access value, and no expiry, whatever lifetime the response declared, where the
  specification asks for the access value and its computed expiry.
\<close>

theorem refresh_stores_access_token_only:
  assumes "secrets_present env"
    and "net (requests w) (token_request env) = Responds r"
    and "status r = 200"
    and "get_property (data r) ''access_token'' = Inr v"
    and "write_error w (TOKEN_FILE env) = None"
  shows "fst (refreshAccessToken env net w) = Inr v
         \<and> files (snd (refreshAccessToken env net w)) (TOKEN_FILE env)
             = Some (ser [] (JObj [(''access_token'', v)]))"
  using assms by (simp add: refresh_sends stored_record_def)

theorem refresh_stores_access_token_only_witness:
  "net_issue (requests world0) (token_request env_ok) = Responds issued
   \<and> data issued = JObj [(''access_token'', JStr ''new''), (''expires_in'', JNum ''3600'')]
   \<and> files (snd (refreshAccessToken env_ok net_issue world0)) ''access_token.json''
       = Some ''{\<newline>  \"access_token\": \"new\"\<newline>}''
   \<and> JSON_parse ''{\<newline>  \"access_token\": \"new\"\<newline>}''
       = Inr (JObj [(''access_token'', JStr ''new'')])"
proof -
  have n: "net_issue (requests world0) (token_request env_ok) = Responds issued"
    by (simp add: net_issue_def)
  have d: "data issued = JObj [(''access_token'', JStr ''new''), (''expires_in'', JNum ''3600'')]"
    by (simp add: issued_def)
  have s: "status issued = 200"
    by (simp add: issued_def)
  have g: "get_property (data issued) ''access_token'' = Inr (JStr ''new'')"
    by (simp add: issued_def)
  have w: "write_error world0 (TOKEN_FILE env_ok) = None"
    by (simp add: world0_def)
  have t: "ser [] (JObj [(''access_token'', JStr ''new'')])
             = ''{\<newline>  \"access_token\": \"new\"\<newline>}''"
    by code_simp
  have p: "JSON_parse ''{\<newline>  \"access_token\": \"new\"\<newline>}''
       = Inr (JObj [(''access_token'', JStr ''new'')])"
    by code_simp
  show ?thesis
    using refresh_stores_access_token_only [of env_ok net_issue world0 issued "JStr ''new''"]
      secrets_env_ok n s g w d t p
    by (simp add: token_file_env_ok)
qed

text \<open>
  C3. When one of the three required secrets (client identifier, client secret, refresh
  secret) is absent, \<^verbatim>\<open>refreshAccessToken\<close> fails with the configuration error and hands
  no request to the network: the request trace, and indeed the whole state, is as before.
\<close>

theorem refresh_missing_secret:
  assumes "CLIENT_ID env = None \<or> CLIENT_SECRET env = None \<or> REFRESH_TOKEN env = None"
  shows "fst (refreshAccessToken env net w) = Inl missing_variables
       \<and> requests (snd (refreshAccessToken env net w)) = requests w
       \<and> snd (refreshAccessToken env net w) = w"
  using assms by (auto simp: refreshAccessToken_def env_truthy_def)

theorem refresh_missing_secret_witness:
  "CLIENT_SECRET env_no_secret = None
   \<and> fst (refreshAccessToken env_no_secret net_issue world0) = Inl missing_variables
   \<and> requests (snd (refreshAccessToken env_no_secret net_issue world0)) = []"
  using refresh_missing_secret [of env_no_secret net_issue world0]
  by (simp add: env_no_secret_def CLIENT_SECRET_def world0_def)

text \<open>
  C4. With the secrets set and no token file, when the token endpoint answers 400 with a
  JSON object as body (such as \<^verbatim>\<open>{"error":"invalid_grant"}\<close>), \<^verbatim>\<open>refreshAccessToken\<close>
  throws an error whose message is \<^verbatim>\<open>Token refresh failed: [object Object]\<close> whatever the
  object holds, where the specification asks for an error that carries the detail of the
  answer;
  the check-in action writes that failure to the error stream, throws it
  again, and has sent the token request only, so nothing went to the attendance endpoint.
\<close>

theorem refresh_rejected_object_body:
  assumes "secrets_present env"
    and "files w (TOKEN_FILE env) = None"
    and "net (requests w) (token_request env) = Responds r"
    and "status r = 400"
    and "data r = JObj ms"
  shows "fst (refreshAccessToken env net w)
           = Inl (new_Error ''Token refresh failed: [object Object]'')
         \<and> checkInOut env net clk True w
           = (Inl (new_Error ''Token refresh failed: [object Object]''),
              w\<lparr>requests := requests w @ [token_request env],
                console := console w @
                  [Err [JStr (''['' @ toLocaleString clk @ ''] CHECK IN FAILED:''),
                        JStr ''Token refresh failed: [object Object]'']]\<rparr>)"
  using assms
  by (simp add: checkInOut_def getAccessToken_cases refresh_sends js_or_def
      checkInOut_catch_def new_Error_def action_def)

theorem refresh_rejected_object_body_witness:
  "secrets_present env_ok
   \<and> files world0 (TOKEN_FILE env_ok) = None
   \<and> net_invalid_grant (requests world0) (token_request env_ok) = Responds invalid_grant
   \<and> status invalid_grant = 400
   \<and> data invalid_grant = JObj [(''error'', JStr ''invalid_grant'')]
   \<and> fst (refreshAccessToken env_ok net_invalid_grant world0)
       = Inl (new_Error ''Token refresh failed: [object Object]'')
   \<and> fst (checkInOut env_ok net_invalid_grant clock0 True world0)
       = Inl (new_Error ''Token refresh failed: [object Object]'')
   \<and> requests (snd (checkInOut env_ok net_invalid_grant clock0 True world0))
       = [token_request env_ok]
   \<and> console (snd (checkInOut env_ok net_invalid_grant clock0 True world0))
       = [Err [JStr ''[11/2/2026, 9:00:05 AM] CHECK IN FAILED:'',
               JStr ''Token refresh failed: [object Object]'']]"
proof -
  have f: "files world0 (TOKEN_FILE env_ok) = None"
    by (simp add: world0_def)
  have n: "net_invalid_grant (requests world0) (token_request env_ok) = Responds invalid_grant"
    by (simp add: net_invalid_grant_def)
  have s: "status invalid_grant = 400"
    by (simp add: invalid_grant_def)
  have d: "data invalid_grant = JObj [(''error'', JStr ''invalid_grant'')]"
    by (simp add: invalid_grant_def)
  show ?thesis
    using refresh_rejected_object_body [of env_ok world0 net_invalid_grant invalid_grant
        "[(''error'', JStr ''invalid_grant'')]" clock0] secrets_env_ok f n s d
    by (simp add: world0_def clock0_def)
qed

text \<open>
  C5. When the token file is absent, cannot be read, or holds a text that is not valid
  JSON, \<^verbatim>\<open>getAccessToken\<close> does exactly what \<^verbatim>\<open>refreshAccessToken\<close> does from the same
  state. No storage error reaches the caller: an error it gets is the missing-variables
  error or a ``Token refresh failed'' error of the refresh.
\<close>

theorem storage_miss_falls_through:
  assumes "files w (TOKEN_FILE env) = None
           \<or> read_error w (TOKEN_FILE env) \<noteq> None
           \<or> (\<exists>txt e. files w (TOKEN_FILE env) = Some txt \<and> JSON_parse txt = Inl e)"
  shows "getAccessToken env net w = refreshAccessToken env net w
         \<and> (\<forall>e. fst (getAccessToken env net w) = Inl e \<longrightarrow>
                e = missing_variables
                \<or> (\<exists>m. e = new_Error (''Token refresh failed: '' @ m)))"
proof -
  from assms have eq: "getAccessToken env net w = refreshAccessToken env net w"
    by (auto simp: getAccessToken_cases split: option.splits)
  then show ?thesis
    using refresh_error_shape [of env net w] by simp
qed

theorem storage_miss_falls_through_witness:
  "files world_corrupt (TOKEN_FILE env_ok) = Some ''not json''
   \<and> JSON_parse ''not json'' = Inl (new_Error ''SyntaxError: the text is not valid JSON'')
   \<and> getAccessToken env_ok net_issue world_corrupt
       = refreshAccessToken env_ok net_issue world_corrupt
   \<and> fst (getAccessToken env_ok net_issue world_corrupt) = Inr (JStr ''new'')"
proof -
  have f: "files world_corrupt (TOKEN_FILE env_ok) = Some ''not json''"
    by (simp add: world_corrupt_def TOKEN_FILE_def env_ok_def env_or_def)
  have p: "JSON_parse ''not json'' = Inl (new_Error ''SyntaxError: the text is not valid JSON'')"
    by code_simp
  have r: "fst (getAccessToken env_ok net_issue world_corrupt) = Inr (JStr ''new'')"
    by code_simp
  from f p have "\<exists>txt e. files world_corrupt (TOKEN_FILE env_ok) = Some txt \<and> JSON_parse txt = Inl e"
    by blast
  then show ?thesis
    using storage_miss_falls_through [of world_corrupt env_ok net_issue] f p r by blast
qed

text \<open>
  C6. With the secrets set: a refresh that succeeds (answer 200 with an access value
  \<open>v\<close>, file writable) leaves the token file holding the record of \<open>v\<close>, whatever it
  held before; a refresh that fails, by a network failure or by an answer outside 200 to
  299, throws and leaves every file as it was; after two refreshes in a row that succeed
  the file holds the record of the second value alone; and whenever a refresh returns an
  access value, the token file holds the record of that value.
\<close>

theorem refresh_overwrites_or_leaves:
  assumes "secrets_present env"
  shows "(\<forall>r v. net (requests w) (token_request env) = Responds r \<and> status r = 200
                \<and> get_property (data r) ''access_token'' = Inr v
                \<and> write_error w (TOKEN_FILE env) = None
             \<longrightarrow> fst (refreshAccessToken env net w) = Inr v
                 \<and> files (snd (refreshAccessToken env net w))
                     = (files w)(TOKEN_FILE env \<mapsto> stored_record v))
       \<and> ((\<exists>m. net (requests w) (token_request env) = Fails m)
           \<or> (\<exists>r. net (requests w) (token_request env) = Responds r
                    \<and> \<not> (200 \<le> status r \<and> status r < 300))
             \<longrightarrow> (\<exists>e. fst (refreshAccessToken env net w) = Inl e)
                 \<and> files (snd (refreshAccessToken env net w)) = files w)
       \<and> (\<forall>r1 v1 r2 v2.
             net (requests w) (token_request env) = Responds r1 \<and> status r1 = 200
             \<and> get_property (data r1) ''access_token'' = Inr v1
             \<and> net (requests w @ [token_request env]) (token_request env) = Responds r2
             \<and> status r2 = 200
             \<and> get_property (data r2) ''access_token'' = Inr v2
             \<and> write_error w (TOKEN_FILE env) = None
             \<longrightarrow> files (snd (refreshAccessToken env net (snd (refreshAccessToken env net w))))
                   = (files w)(TOKEN_FILE env \<mapsto> stored_record v2))
       \<and> (\<forall>v. fst (refreshAccessToken env net w) = Inr v \<and> v \<noteq> JUndefined
             \<longrightarrow> files (snd (refreshAccessToken env net w))
                   = (files w)(TOKEN_FILE env \<mapsto> stored_record v))"
proof (intro conjI allI impI)
  fix r v
  assume "net (requests w) (token_request env) = Responds r \<and> status r = 200
          \<and> get_property (data r) ''access_token'' = Inr v
          \<and> write_error w (TOKEN_FILE env) = None"
  then show "fst (refreshAccessToken env net w) = Inr v"
    and "files (snd (refreshAccessToken env net w))
           = (files w)(TOKEN_FILE env \<mapsto> stored_record v)"
    using assms by (simp_all add: refresh_sends)
next
  assume "(\<exists>m. net (requests w) (token_request env) = Fails m)
          \<or> (\<exists>r. net (requests w) (token_request env) = Responds r
                   \<and> \<not> (200 \<le> status r \<and> status r < 300))"
  then show "\<exists>e. fst (refreshAccessToken env net w) = Inl e"
    and "files (snd (refreshAccessToken env net w)) = files w"
    using assms by (auto simp: refresh_sends)
next
  fix r1 v1 r2 v2
  assume a: "net (requests w) (token_request env) = Responds r1 \<and> status r1 = 200
             \<and> get_property (data r1) ''access_token'' = Inr v1
             \<and> net (requests w @ [token_request env]) (token_request env) = Responds r2
             \<and> status r2 = 200
             \<and> get_property (data r2) ''access_token'' = Inr v2
             \<and> write_error w (TOKEN_FILE env) = None"
  then have one: "snd (refreshAccessToken env net w)
                    = w\<lparr>requests := requests w @ [token_request env],
                        files := (files w)(TOKEN_FILE env \<mapsto> stored_record v1)\<rparr>"
    using assms by (simp add: refresh_sends)
  show "files (snd (refreshAccessToken env net (snd (refreshAccessToken env net w))))
          = (files w)(TOKEN_FILE env \<mapsto> stored_record v2)"
    unfolding one using a assms by (simp add: refresh_sends)
next
  fix v
  assume "fst (refreshAccessToken env net w) = Inr v \<and> v \<noteq> JUndefined"
  then show "files (snd (refreshAccessToken env net w))
               = (files w)(TOKEN_FILE env \<mapsto> stored_record v)"
    unfolding refresh_sends [OF assms]
    by (auto split: http_outcome.splits if_splits sum.splits option.splits)
qed

theorem refresh_overwrites_or_leaves_witness:
  "secrets_present env_ok
   \<and> files world_cached ''access_token.json'' = Some cached_text
   \<and> files (snd (refreshAccessToken env_ok net_two
                  (snd (refreshAccessToken env_ok net_two world_cached)))) ''access_token.json''
       = Some ''{\<newline>  \"access_token\": \"second\"\<newline>}''
   \<and> files (snd (refreshAccessToken env_ok net_invalid_grant world_cached)) ''access_token.json''
       = Some cached_text
   \<and> files (snd (refreshAccessToken env_ok net_down world_cached)) ''access_token.json''
       = Some cached_text"
proof -
  note main = refresh_overwrites_or_leaves [OF secrets_env_ok]
  have c: "files world_cached ''access_token.json'' = Some cached_text"
    by (simp add: world_cached_def)
  have t: "stored_record (JStr ''second'') = ''{\<newline>  \"access_token\": \"second\"\<newline>}''"
    unfolding stored_record_def by code_simp
  have two: "files (snd (refreshAccessToken env_ok net_two
                  (snd (refreshAccessToken env_ok net_two world_cached))))
              = (files world_cached)(TOKEN_FILE env_ok \<mapsto> stored_record (JStr ''second''))"
    by (rule main [of net_two world_cached, THEN conjunct2, THEN conjunct2, THEN conjunct1,
                  rule_format,
                  of first_issued "JStr ''first''" second_issued "JStr ''second''"])
       (simp add: net_two_def world_cached_def world0_def first_issued_def second_issued_def)
  have bad: "files (snd (refreshAccessToken env_ok net_invalid_grant world_cached))
              = files world_cached"
    using main [of net_invalid_grant world_cached, THEN conjunct2, THEN conjunct1]
    by (simp add: net_invalid_grant_def invalid_grant_def)
  have down: "files (snd (refreshAccessToken env_ok net_down world_cached))
              = files world_cached"
    using main [of net_down world_cached, THEN conjunct2, THEN conjunct1]
    by (simp add: net_down_def)
  show ?thesis
    using secrets_env_ok c two bad down t by (simp add: token_file_env_ok)
qed

text \<open>
  C7. With a token file that holds the access value \<open>tok\<close>, a clock in the years 1000 to
  9999 and an attendance endpoint that answers 200, the check-in action sends exactly one
  request: a POST to the attendance endpoint whose form body holds \<^verbatim>\<open>dateFormat\<close> and a
  \<^verbatim>\<open>checkIn\<close> field equal to the clock's time in the format \<^verbatim>\<open>dd/MM/yyyy HH:mm:ss\<close>, with
  the header \<^verbatim>\<open>Authorization: Zoho-oauthtoken tok\<close>. The body of the answer is returned
  and no error is thrown.
\<close>

theorem check_in_with_cached_token:
  assumes "files w (TOKEN_FILE env) = Some txt"
    and "read_error w (TOKEN_FILE env) = None"
    and "JSON_parse txt = Inr (JObj ms)"
    and "map_of ms ''access_token'' = Some (JStr tok)"
    and "valid_date (now clk)"
    and "net (requests w) (check_in_request tok (now clk)) = Responds r"
    and "status r = 200"
  shows "fst (checkInOut env net clk True w) = Inr (data r)
         \<and> requests (snd (checkInOut env net clk True w))
             = requests w @ [check_in_request tok (now clk)]"
  using assms
  by (simp add: checkInOut_def getAccessToken_cases axios_post_def check_in_request_def
      currentTime_format Let_def)

theorem check_in_with_cached_token_witness:
  "files world_cached (TOKEN_FILE env_ok) = Some cached_text
   \<and> JSON_parse cached_text = Inr (JObj [(''access_token'', JStr ''old'')])
   \<and> valid_date (now clock0)
   \<and> net_attend (requests world_cached) (check_in_request ''old'' (now clock0))
       = Responds accepted
   \<and> fst (checkInOut env_ok net_attend clock0 True world_cached)
       = Inr (JObj [(''status'', JStr ''success'')])
   \<and> requests (snd (checkInOut env_ok net_attend clock0 True world_cached))
       = [\<lparr>url = ''https://people.zoho.eu/people/api/attendance'',
           body = [(''dateFormat'', ''dd/MM/yyyy HH:mm:ss''),
                   (''checkIn'', ''02/11/2026 09:00:05'')],
           headers = [(''Authorization'', ''Zoho-oauthtoken old''),
                      (''Content-Type'', ''application/x-www-form-urlencoded'')]\<rparr>]"
proof -
  have f: "files world_cached (TOKEN_FILE env_ok) = Some cached_text"
    by (simp add: world_cached_def token_file_env_ok)
  have e: "read_error world_cached (TOKEN_FILE env_ok) = None"
    by (simp add: world_cached_def world0_def)
  have p: "JSON_parse cached_text = Inr (JObj [(''access_token'', JStr ''old'')])"
    by code_simp
  have m: "map_of [(''access_token'', JStr ''old'')] ''access_token'' = Some (JStr ''old'')"
    by simp
  have v: "valid_date (now clock0)"
    by (simp add: valid_date_def clock0_def)
  have n: "net_attend (requests world_cached) (check_in_request ''old'' (now clock0))
             = Responds accepted"
    by (simp add: net_attend_def check_in_request_def)
  have s: "status accepted = 200" and d: "data accepted = JObj [(''status'', JStr ''success'')]"
    by (simp_all add: accepted_def)
  have q: "check_in_request ''old'' (now clock0)
       = \<lparr>url = ''https://people.zoho.eu/people/api/attendance'',
           body = [(''dateFormat'', ''dd/MM/yyyy HH:mm:ss''),
                   (''checkIn'', ''02/11/2026 09:00:05'')],
           headers = [(''Authorization'', ''Zoho-oauthtoken old''),
                      (''Content-Type'', ''application/x-www-form-urlencoded'')]\<rparr>"
    by code_simp
  have r0: "requests world_cached = []"
    by (simp add: world_cached_def world0_def)
  show ?thesis
    using check_in_with_cached_token [where net = net_attend and w = world_cached
        and env = env_ok and clk = clock0 and r = accepted, OF f e p m v n s]
      f p v n d q r0
    by simp
qed

text \<open>
  C8. Whatever the two configured expressions are, every job that starting the scheduler
  arms has an expression that passes validation, and when one of the two expressions
  fails validation the start throws and the scheduler is never reported as started. The
  expression \<^verbatim>\<open>0 9 * * 1-5\<close> passes validation and \<^verbatim>\<open>99 99 * * *\<close> fails it.
\<close>

theorem scheduler_arms_only_valid:
  "(\<forall>t \<in> set (tasks (snd (startScheduler env w))).
       t \<in> set (tasks w) \<or> cron_validate (expression t))
   \<and> (\<not> cron_validate (CHECKIN_TIME env) \<or> \<not> cron_validate (CHECKOUT_TIME env)
        \<longrightarrow> (\<exists>e. fst (startScheduler env w) = Inl e)
            \<and> console (snd (startScheduler env w)) = console w)
   \<and> (cron_validate (CHECKIN_TIME env) \<and> cron_validate (CHECKOUT_TIME env)
        \<longrightarrow> fst (startScheduler env w) = Inr ()
            \<and> map expression (tasks (snd (startScheduler env w)))
                = map expression (tasks w) @ [CHECKIN_TIME env, CHECKOUT_TIME env])
   \<and> cron_validate ''0 9 * * 1-5''
   \<and> \<not> cron_validate ''99 99 * * *''"
proof -
  have a: "cron_validate ''0 9 * * 1-5''"
    by code_simp
  have b: "\<not> cron_validate ''99 99 * * *''"
    by code_simp
  show ?thesis
    using a b by (auto simp: startScheduler_def setupCronJobs_cases)
qed

theorem scheduler_arms_only_valid_witness:
  "CHECKIN_TIME env_bad_cron = ''99 99 * * *''
   \<and> \<not> cron_validate (CHECKIN_TIME env_bad_cron)
   \<and> fst (startScheduler env_bad_cron world0) = Inl (new_Error ''99 99 * * * is a invalid expression'')
   \<and> tasks (snd (startScheduler env_bad_cron world0)) = []
   \<and> console (snd (startScheduler env_bad_cron world0)) = []
   \<and> fst (startScheduler env_ok world0) = Inr ()
   \<and> map expression (tasks (snd (startScheduler env_ok world0)))
       = [''0 9 * * 1-5'', ''0 18 * * 1-5'']"
proof -
  note main = scheduler_arms_only_valid
  have c: "CHECKIN_TIME env_bad_cron = ''99 99 * * *''"
    by (simp add: CHECKIN_TIME_def env_bad_cron_def env_or_def)
  have i: "\<not> cron_validate (CHECKIN_TIME env_bad_cron)"
    unfolding c using main [of env_ok world0] by blast
  have x: "fst (startScheduler env_bad_cron world0)
             = Inl (new_Error ''99 99 * * * is a invalid expression'')"
    by code_simp
  have t: "tasks (snd (startScheduler env_bad_cron world0)) = []"
    by code_simp
  have l: "console (snd (startScheduler env_bad_cron world0)) = console world0"
    using main [of env_bad_cron world0] i by blast
  have o1: "CHECKIN_TIME env_ok = ''0 9 * * 1-5''" and o2: "CHECKOUT_TIME env_ok = ''0 18 * * 1-5''"
    by (simp_all add: CHECKIN_TIME_def CHECKOUT_TIME_def env_ok_def env_or_def)
  have v2: "cron_validate ''0 18 * * 1-5''"
    by code_simp
  have ok: "fst (startScheduler env_ok world0) = Inr ()
            \<and> map expression (tasks (snd (startScheduler env_ok world0)))
                = map expression (tasks world0) @ [CHECKIN_TIME env_ok, CHECKOUT_TIME env_ok]"
    using main [of env_ok world0] v2 unfolding o1 o2 by blast
  show ?thesis
    using c i x t l ok by (simp add: o1 o2 world0_def)
qed

text \<open>
  C9. With the secrets set, when the token endpoint answers with a status from 201 to 299,
  \<^verbatim>\<open>refreshAccessToken\<close> resolves to \<^verbatim>\<open>undefined\<close>: it throws nothing, and the state
  changes by the request sent only, so nothing is written to the token file.
\<close>

theorem refresh_2xx_not_200:
  assumes "secrets_present env"
    and "net (requests w) (token_request env) = Responds r"
    and "200 \<le> status r" and "status r < 300" and "status r \<noteq> 200"
  shows "refreshAccessToken env net w
           = (Inr JUndefined, w\<lparr>requests := requests w @ [token_request env]\<rparr>)
         \<and> files (snd (refreshAccessToken env net w)) = files w"
  using assms by (simp add: refresh_sends)

theorem refresh_2xx_not_200_witness:
  "secrets_present env_ok
   \<and> net_created (requests world_cached) (token_request env_ok) = Responds created
   \<and> status created = 201
   \<and> fst (refreshAccessToken env_ok net_created world_cached) = Inr JUndefined
   \<and> files (snd (refreshAccessToken env_ok net_created world_cached)) ''access_token.json''
       = Some cached_text"
proof -
  have s: "secrets_present env_ok"
    by (simp add: secrets_present_def env_ok_def CLIENT_ID_def CLIENT_SECRET_def
        REFRESH_TOKEN_def env_truthy_def)
  have n: "net_created (requests world_cached) (token_request env_ok) = Responds created"
    by (simp add: net_created_def)
  have c: "status created = 201"
    by (simp add: created_def)
  have f: "files world_cached ''access_token.json'' = Some cached_text"
    by (simp add: world_cached_def)
  show ?thesis
    using refresh_2xx_not_200 [of env_ok net_created world_cached created] s n c f by simp
qed

text \<open>
  C10 (as stated). The file \<^verbatim>\<open>null\<close> is valid JSON and has no \<^verbatim>\<open>access_token\<close> field,
  yet \<^verbatim>\<open>getAccessToken\<close> does not resolve to \<^verbatim>\<open>undefined\<close>: reading the property
  throws, the catch block refreshes, one token request is sent and the new value is returned.
\<close>

theorem null_file_refreshes:
  "files world_null (TOKEN_FILE env_ok) = Some ''null''
   \<and> JSON_parse ''null'' = Inr JNull
   \<and> fst (getAccessToken env_ok net_issue world_null) = Inr (JStr ''new'')
   \<and> requests (snd (getAccessToken env_ok net_issue world_null)) = [token_request env_ok]"
proof -
  have "files world_null (TOKEN_FILE env_ok) = Some ''null''"
    by (simp add: world_null_def token_file_env_ok)
  moreover have "JSON_parse ''null'' = Inr JNull"
    by code_simp
  moreover have "fst (getAccessToken env_ok net_issue world_null) = Inr (JStr ''new'')"
    by code_simp
  moreover have "requests (snd (getAccessToken env_ok net_issue world_null))
                   = [token_request env_ok]"
    by code_simp
  ultimately show ?thesis by blast
qed

text \<open>
  C10 (amended). When the token file holds valid JSON other than \<^verbatim>\<open>null\<close> and without
  an \<^verbatim>\<open>access_token\<close> member (an object without it, an array, a string, a number, a
  boolean), \<^verbatim>\<open>getAccessToken\<close> resolves to \<^verbatim>\<open>undefined\<close> and leaves the state as it
  was, so no request is sent. When the file holds \<^verbatim>\<open>null\<close> it does what
  \<^verbatim>\<open>refreshAccessToken\<close> does.
\<close>

theorem cached_without_field:
  assumes "files w (TOKEN_FILE env) = Some txt"
    and "read_error w (TOKEN_FILE env) = None"
    and "JSON_parse txt = Inr v"
    and "\<forall>ms. v = JObj ms \<longrightarrow> map_of ms ''access_token'' = None"
  shows "(v \<noteq> JNull \<longrightarrow> getAccessToken env net w = (Inr JUndefined, w))
         \<and> (v = JNull \<longrightarrow> getAccessToken env net w = refreshAccessToken env net w)"
proof -
  from assms(3) have "v \<noteq> JUndefined"
    by (rule JSON_parse_defined)
  with assms show ?thesis
    by (cases v) (simp_all add: getAccessToken_cases)
qed

theorem cached_without_field_witness:
  "files world_empty_object (TOKEN_FILE env_ok) = Some ''{}''
   \<and> read_error world_empty_object (TOKEN_FILE env_ok) = None
   \<and> JSON_parse ''{}'' = Inr (JObj [])
   \<and> getAccessToken env_ok net_issue world_empty_object = (Inr JUndefined, world_empty_object)"
proof -
  have f: "files world_empty_object (TOKEN_FILE env_ok) = Some ''{}''"
    by (simp add: world_empty_object_def token_file_env_ok)
  have r: "read_error world_empty_object (TOKEN_FILE env_ok) = None"
    by (simp add: world_empty_object_def world0_def)
  have p: "JSON_parse ''{}'' = Inr (JObj [])"
    by code_simp
  show ?thesis
    using cached_without_field [of world_empty_object env_ok "''{}''" "JObj []" net_issue] f r p
    by simp
qed

end
